theory Spec2Isabelle
  imports Main
begin

section \<open>Python values and strings\<close>

text \<open>
  A Python \<open>str\<close> is a sequence of Unicode code points, so a character is a \<open>nat\<close>
  and a string a list of them. \<open>ustr\<close> reads an ASCII literal as such a string; the
  Euro sign of the source is the code point U+20AC.
\<close>

type_synonym pchar = nat
type_synonym pstr = "pchar list"

definition ustr :: "string \<Rightarrow> pstr" where
  "ustr s = map of_char s"

definition euro :: pchar where
  "euro = 8364"

text \<open>
  The values that flow through the pipeline: \<open>None\<close>, strings (PDF lines, table
  fields, spreadsheet text cells) and integers (spreadsheet number cells). Floating-point
  cells are outside the model.
\<close>

datatype pyval = PNone | PStr pstr | PInt int

text \<open>\<open>str(n)\<close> for a non-negative integer: its decimal digits.\<close>

function nat_digits :: "nat \<Rightarrow> pstr" where
  "nat_digits n = (if n < 10 then [48 + n] else nat_digits (n div 10) @ [48 + n mod 10])"
  by pat_completeness auto
termination
  by (relation "measure (\<lambda>n. n)") auto

text \<open>\<open>str(x)\<close> on the values of the model.\<close>

fun py_str :: "pyval \<Rightarrow> pstr" where
  "py_str PNone = ustr ''None''"
| "py_str (PStr s) = s"
| "py_str (PInt i) = (if i < 0 then 45 # nat_digits (nat (- i)) else nat_digits (nat i))"

text \<open>
  \<open>str.strip()\<close> removes the code points for which \<open>str.isspace()\<close> holds, and
  \<open>str.splitlines()\<close> splits at the line boundaries of the Python documentation
  (\<open>\n\<close>, \<open>\r\<close>, \<open>\r\n\<close>, \<open>\v\<close>, \<open>\f\<close>, \<open>\x1c\<close>, \<open>\x1d\<close>, \<open>\x1e\<close>, \<open>\x85\<close>, U+2028,
  U+2029). Every line boundary is a whitespace character.
\<close>

definition isspace :: "pchar \<Rightarrow> bool" where
  "isspace c = (c \<in> set ([9, 10, 11, 12, 13, 28, 29, 30, 31, 32, 133, 160, 5760]
                          @ [8192 ..< 8203] @ [8232, 8233, 8239, 8287, 12288]))"

definition is_linebreak :: "pchar \<Rightarrow> bool" where
  "is_linebreak c = (c \<in> set [10, 11, 12, 13, 28, 29, 30, 133, 8232, 8233])"

definition strip :: "pstr \<Rightarrow> pstr" where
  "strip s = rev (dropWhile isspace (rev (dropWhile isspace s)))"

text \<open>
  \<open>splitlines_from cur rest\<close>: \<open>cur\<close> is the line read so far. A line boundary ends
  the line (\<open>\r\n\<close> counts once); the text after the last boundary is a line only if it
  is not empty, so \<open>"a\n".splitlines() == ["a"]\<close> and \<open>"".splitlines() == []\<close>.
\<close>

fun splitlines_from :: "pstr \<Rightarrow> pstr \<Rightarrow> pstr list" where
  "splitlines_from cur [] = (if cur = [] then [] else [cur])"
| "splitlines_from cur [c] = (if is_linebreak c then [cur] else [cur @ [c]])"
| "splitlines_from cur (c # d # cs) =
     (if c = 13 \<and> d = 10 then cur # splitlines_from [] cs
      else if is_linebreak c then cur # splitlines_from [] (d # cs)
      else splitlines_from (cur @ [c]) (d # cs))"

definition splitlines :: "pstr \<Rightarrow> pstr list" where
  "splitlines s = splitlines_from [] s"

text \<open>\<open>sep.join(xs)\<close>.\<close>

fun join :: "pstr \<Rightarrow> pstr list \<Rightarrow> pstr" where
  "join sep [] = []"
| "join sep [x] = x"
| "join sep (x # y # ys) = x @ sep @ join sep (y # ys)"

text \<open>\<open>s.replace(" ", "")\<close> and \<open>s.replace(",", ".")\<close>, both on single characters.\<close>

definition remove_char :: "pchar \<Rightarrow> pstr \<Rightarrow> pstr" where
  "remove_char a s = filter (\<lambda>c. c \<noteq> a) s"

definition replace_char :: "pchar \<Rightarrow> pchar \<Rightarrow> pstr \<Rightarrow> pstr" where
  "replace_char a b s = map (\<lambda>c. if c = a then b else c) s"

section \<open>The text normalizer\<close>

text \<open>
  \<open>str.isdigit()\<close> reads the interpreter's Unicode table, which is not part of the
  repository: the normalizer takes it as the parameter \<open>isdigit\<close>. \<open>ascii_isdigit\<close>
  is the table's Basic Latin part (\<open>0\<close> to \<open>9\<close>), with which Python agrees on every
  ASCII string.
\<close>

definition ascii_isdigit :: "pchar \<Rightarrow> bool" where
  "ascii_isdigit c = (48 \<le> c \<and> c \<le> 57)"

text \<open>
  The set literal \<open>{'.', '\<euro>', 'EUR'}\<close> of the source: a set of three strings, the
  third of length three. \<open>char in allowed\<close> compares the one-character string with them.
\<close>

definition allowed :: "pstr list" where
  "allowed = [ustr ''.'', [euro], ustr ''EUR'']"

definition keep_char :: "(pchar \<Rightarrow> bool) \<Rightarrow> pchar \<Rightarrow> bool" where
  "keep_char isdigit c = (isdigit c \<or> [c] \<in> set allowed)"

text \<open>The \<open>for entry in lines\<close> loop of \<open>clean_extracted_text\<close>.\<close>

fun clean_lines :: "(pchar \<Rightarrow> bool) \<Rightarrow> pstr list \<Rightarrow> pstr list" where
  "clean_lines isdigit [] = []"
| "clean_lines isdigit (entry # rest) =
     (let entry1 = replace_char 44 46 (remove_char 32 entry);
          entry2 = filter (keep_char isdigit) entry1
      in if list_ex isdigit entry2 then entry2 # clean_lines isdigit rest
         else clean_lines isdigit rest)"

definition stripped_lines :: "pstr \<Rightarrow> pstr list" where
  "stripped_lines text = map strip (filter (\<lambda>entry. strip entry \<noteq> []) (splitlines text))"

definition clean_extracted_text :: "(pchar \<Rightarrow> bool) \<Rightarrow> pstr \<Rightarrow> bool \<Rightarrow> pstr list" where
  "clean_extracted_text isdigit text is_account =
     (if text = [] then []
      else if is_account then stripped_lines text
      else clean_lines isdigit (stripped_lines text))"

section \<open>Reading the sources\<close>

text \<open>
  The spreadsheet and PDF libraries are outside the repository. A call into them either
  raises \<open>FileNotFoundError\<close>, raises another exception, or returns.
\<close>

datatype 'a outcome = FileNotFoundError | OtherException | Returned 'a

text \<open>
  A data frame (pandas or polars): its column names and its rows, a row giving the value
  of each column.
\<close>

record dataframe =
  df_columns :: "pstr list"
  df_rows :: "(pstr \<Rightarrow> pyval) list"

record kwargs =
  skiprows :: nat
  nrows :: nat
  usecols :: pstr

definition EXCEL_ACCOUNT_CELL :: kwargs where
  "EXCEL_ACCOUNT_CELL = \<lparr>skiprows = 0, nrows = 1, usecols = ustr ''I''\<rparr>"

definition EXCEL_DATA_RANGE :: kwargs where
  "EXCEL_DATA_RANGE = \<lparr>skiprows = 3, nrows = 1, usecols = ustr ''L:M''\<rparr>"

definition EXCEL_VALUE_COL :: pstr where
  "EXCEL_VALUE_COL = ustr ''Co'' @ [251] @ ustr ''t d'' @ [39] @ ustr ''acquisition''"

definition EXCEL_CHANGE_COL :: pstr where
  "EXCEL_CHANGE_COL = ustr ''Valorisation ''"

text \<open>What the program prints, one constructor per \<open>print\<close> of the source.\<close>

datatype message =
    Excel_file_not_found
  | Error_reading_excel
  | Pdf_file_not_found
  | Error_processing_pdf
  | Account_from_excel pyval
  | Excel_account_lookup pyval pyval pyval
  | Combined_data "pyval list list"
  | Data_saved
  | No_meaningful_data

text \<open>
  \<open>read_excel_data\<close> returns a single cell, a frame, or \<open>None\<close>. Its first argument
  is the outcome of \<open>pd.read_excel(path, **kwargs)\<close>; it returns what it printed too.
\<close>

datatype excel_value = Cell pyval | Frame dataframe

definition read_excel_data ::
  "dataframe outcome \<Rightarrow> kwargs \<Rightarrow> message list \<times> excel_value option" where
  "read_excel_data read_excel kw =
     (case read_excel of
        Returned df_pandas \<Rightarrow>
          if nrows kw = 1 \<and> usecols kw = ustr ''I''
          then (if df_rows df_pandas = [] \<or> df_columns df_pandas = [] then ([], None)
                else ([], Some (Cell ((df_rows df_pandas ! 0) (df_columns df_pandas ! 0)))))
          else ([], Some (Frame df_pandas))
      | FileNotFoundError \<Rightarrow> ([Excel_file_not_found], None)
      | OtherException \<Rightarrow> ([Error_reading_excel], None))"

text \<open>
  The three named rectangles. A page gives the text of each rectangle
  (\<open>page.get_textbox(rect)\<close>); the document is the outcome of \<open>fitz.open\<close>. An
  exception raised after the document is open is not modelled.
\<close>

datatype rect_key = Value_rect | Change_rect | Account_num_rect

type_synonym pdf_page = "rect_key \<Rightarrow> pstr"

definition extract_pdf_data ::
  "pdf_page list outcome \<Rightarrow> nat \<Rightarrow> message list \<times> (rect_key \<Rightarrow> pstr list)" where
  "extract_pdf_data doc num_pages =
     (case doc of
        Returned pages \<Rightarrow>
          ([], \<lambda>key. concat (map (\<lambda>page. splitlines (strip (page key)))
                                  (take (min num_pages (length pages)) pages)))
      | FileNotFoundError \<Rightarrow> ([Pdf_file_not_found], \<lambda>key. [])
      | OtherException \<Rightarrow> ([Error_processing_pdf], \<lambda>key. []))"

section \<open>The lookup table and the store\<close>

text \<open>
  Python lists are objects: \<open>LOOKUP_TABLE\<close> maps a prefix to a reference to a list, and
  \<open>lookup_account_info\<close> returns a reference. The store is the list of all list objects,
  a reference is an index into it, and a new list is put at its end. The two templates of
  the table are the objects 0 and 1 of the store the module starts with.
\<close>

type_synonym ref = nat
type_synonym store = "pyval list list"

definition juandi :: "pyval list" where
  "juandi = [PStr (ustr ''Juandi''), PStr (ustr ''Debit account''), PStr (ustr ''193000''),
     PStr (ustr ''CIC''), PStr (ustr ''Funds''), PStr (ustr ''A123''), PStr [],
     PStr (ustr ''EUR''), PStr (ustr ''Medellin''), PStr (ustr ''Fund XYZ''), PNone, PNone,
     PStr (ustr ''Finance'')]"

definition juanse :: "pyval list" where
  "juanse = [PStr (ustr ''Juanse''), PStr (ustr ''Credit account''), PStr (ustr ''100123''),
     PStr (ustr ''EXEX''), PStr (ustr ''Stocks''), PStr (ustr ''B456''), PStr [],
     PStr (ustr ''EUR''), PStr (ustr ''Tolima''), PStr (ustr ''Stock ABC''), PNone, PNone,
     PStr (ustr ''Technology'')]"

definition module_store :: store where
  "module_store = [juandi, juanse]"

definition LOOKUP_TABLE :: "pstr \<rightharpoonup> ref" where
  "LOOKUP_TABLE = map_of [(ustr ''193'', 0), (ustr ''100'', 1)]"

text \<open>\<open>xs[i] = v\<close> on the list object \<open>r\<close>.\<close>

definition set_item :: "ref \<Rightarrow> nat \<Rightarrow> pyval \<Rightarrow> store \<Rightarrow> store" where
  "set_item r i v st = st[r := (st ! r)[i := v]]"

text \<open>The lookup key: \<open>account_str[:3] if len(account_str) >= 3 else account_str\<close>.\<close>

definition first_three_digits :: "pstr \<Rightarrow> pstr" where
  "first_three_digits account_str =
     (if length account_str \<ge> 3 then take 3 account_str else account_str)"

text \<open>
  \<open>lookup_account_info\<close>: \<open>default_info\<close> is a new list of 13 \<open>None\<close>; a found key
  returns the table's own reference.
\<close>

definition lookup_account_info :: "pyval \<Rightarrow> (pstr \<rightharpoonup> ref) \<Rightarrow> store \<Rightarrow> ref \<times> store" where
  "lookup_account_info account_num lookup_table st =
     (let default_info = length st;
          st1 = st @ [replicate 13 PNone]
      in if account_num = PNone then (default_info, st1)
         else
           let account_str = strip (py_str account_num)
           in case lookup_table (first_three_digits account_str) of
                Some template \<Rightarrow> (template, st1)
              | None \<Rightarrow> (default_info, set_item default_info 2 (PStr account_str) st1))"

section \<open>Padding\<close>

definition combine_and_pad_lists :: "pyval list list \<Rightarrow> pyval list list" where
  "combine_and_pad_lists lsts =
     (if lsts = [] then []
      else let max_length = Max (set (map length lsts))
           in map (\<lambda>lst. lst @ replicate (max_length - length lst) PNone) lsts)"

section \<open>The main pipeline\<close>

text \<open>The header of the output file.\<close>

definition SCHEMA :: "pstr list" where
  "SCHEMA = [ustr ''Client'', ustr ''Type de compte'', ustr ''Nom et N. de compte'',
     ustr ''Nom de banque'', ustr ''Classe d'' @ [39] @ ustr ''actifs'', ustr ''Code ISIN'',
     ustr ''Cours'', ustr ''Devise'', ustr ''Zone g'' @ [233] @ ustr ''ographique'',
     ustr ''Libell'' @ [233], ustr ''Quantit'' @ [233], ustr ''Prix de revient'',
     ustr ''Secteur'']"

text \<open>
  In \<open>main\<close> the first call of \<open>read_excel_data\<close> gives a cell or \<open>None\<close> and the
  second a frame or \<open>None\<close>.
\<close>

fun cell_of :: "excel_value option \<Rightarrow> pyval" where
  "cell_of (Some (Cell v)) = v"
| "cell_of _ = PNone"

fun frame_of :: "excel_value option \<Rightarrow> dataframe option" where
  "frame_of (Some (Frame df)) = Some df"
| "frame_of _ = None"

text \<open>
  \<open>if df_excel is not None and len(df_excel) > 0 and col in df_excel.columns:
  combined.append(df_excel[col][0])\<close>, from the empty list.
\<close>

definition excel_column_head :: "dataframe option \<Rightarrow> pstr \<Rightarrow> pyval list" where
  "excel_column_head df_excel col =
     (case df_excel of
        None \<Rightarrow> []
      | Some df \<Rightarrow>
          if length (df_rows df) > 0 \<and> col \<in> set (df_columns df)
          then [(df_rows df ! 0) col] else [])"

text \<open>
  Steps 2 and 3 of \<open>main\<close>: the three combined lists \<open>combined_quantity\<close>,
  \<open>combined_prix_revient\<close> and \<open>combined_accounts_identifiers\<close>, in the order in which
  they are given to \<open>combine_and_pad_lists\<close>.
\<close>

definition combined_lists ::
  "(pchar \<Rightarrow> bool) \<Rightarrow> pyval \<Rightarrow> dataframe option \<Rightarrow> (rect_key \<Rightarrow> pstr list) \<Rightarrow> pyval list list" where
  "combined_lists isdigit excel_account df_excel pdf_raw_data =
     (let cleaned_pdf_value =
            clean_extracted_text isdigit (join (ustr '' '') (pdf_raw_data Value_rect)) False;
          cleaned_pdf_change =
            clean_extracted_text isdigit (join (ustr '' '') (pdf_raw_data Change_rect)) False;
          cleaned_pdf_accounts =
            clean_extracted_text isdigit (join (ustr '' '') (pdf_raw_data Account_num_rect)) True;
          combined_quantity =
            excel_column_head df_excel EXCEL_VALUE_COL @ map PStr cleaned_pdf_value;
          combined_prix_revient =
            excel_column_head df_excel EXCEL_CHANGE_COL @ map PStr cleaned_pdf_change;
          combined_accounts_identifiers =
            (if excel_account \<noteq> PNone then [excel_account] else [])
            @ map PStr cleaned_pdf_accounts
      in [combined_quantity, combined_prix_revient, combined_accounts_identifiers])"

text \<open>
  The body of the loop of step 4 at index \<open>i\<close>, on the store and \<open>final_data_rows\<close>
  (a list of references), and the loop over the indices.
\<close>

definition assemble_row ::
  "pyval list \<Rightarrow> pyval list \<Rightarrow> pyval list \<Rightarrow> nat \<Rightarrow> store \<times> ref list \<Rightarrow> store \<times> ref list" where
  "assemble_row combined_quantity combined_prix_revient combined_accounts_identifiers i s =
     (let account_id = combined_accounts_identifiers ! i;
          (account_template, st1) = lookup_account_info account_id LOOKUP_TABLE (fst s);
          st2 = (if i < length combined_quantity
                 then set_item account_template 10 (combined_quantity ! i) st1 else st1);
          st3 = (if i < length combined_prix_revient
                 then set_item account_template 11 (combined_prix_revient ! i) st2 else st2)
      in (st3, snd s @ [account_template]))"

fun assemble_rows ::
  "pyval list \<Rightarrow> pyval list \<Rightarrow> pyval list \<Rightarrow> nat list \<Rightarrow> store \<times> ref list \<Rightarrow> store \<times> ref list" where
  "assemble_rows q p a [] s = s"
| "assemble_rows q p a (i # rest) s = assemble_rows q p a rest (assemble_row q p a i s)"

text \<open>
  What a run leaves: the printed lines, the output file if one was written, the store,
  and the values of \<open>padded_dynamic_lists\<close> and \<open>final_data_rows\<close>. The file is
  given by the header and the rows handed to the table writer (\<open>pl.DataFrame\<close> and
  \<open>write_csv\<close>, outside the repository); the rows are read from the store when the
  frame is built, after the loop.
\<close>

record run =
  stdout :: "message list"
  csv_file :: "(pstr list \<times> pyval list list) option"
  store_after :: store
  padded_dynamic_lists :: "pyval list list"
  final_data_rows :: "ref list"

text \<open>
  Steps 1 to 3 of \<open>main\<close> and the padding: what was printed, the store after the
  lookup of the spreadsheet's account, and \<open>padded_dynamic_lists\<close>.
\<close>

definition main_lists ::
  "(pchar \<Rightarrow> bool) \<Rightarrow> dataframe outcome \<Rightarrow> dataframe outcome \<Rightarrow> pdf_page list outcome
     \<Rightarrow> store \<Rightarrow> message list \<times> store \<times> pyval list list" where
  "main_lists isdigit excel_cell excel_range pdf st =
     (let (out1, res1) = read_excel_data excel_cell EXCEL_ACCOUNT_CELL;
          excel_account = cell_of res1;
          (out2, res2) = read_excel_data excel_range EXCEL_DATA_RANGE;
          df_excel = frame_of res2;
          (excel_account_info_list, st1) = lookup_account_info excel_account LOOKUP_TABLE st;
          out3 = [Account_from_excel excel_account,
                  Excel_account_lookup (st1 ! excel_account_info_list ! 2)
                    (st1 ! excel_account_info_list ! 0) (st1 ! excel_account_info_list ! 8)];
          (out4, pdf_raw_data) = extract_pdf_data pdf 1;
          padded = combine_and_pad_lists
                     (combined_lists isdigit excel_account df_excel pdf_raw_data)
      in (out1 @ out2 @ out3 @ out4, st1, padded))"

text \<open>\<open>main\<close>: steps 4 and 5 after \<open>main_lists\<close>.\<close>

definition main ::
  "(pchar \<Rightarrow> bool) \<Rightarrow> dataframe outcome \<Rightarrow> dataframe outcome \<Rightarrow> pdf_page list outcome
     \<Rightarrow> store \<Rightarrow> run" where
  "main isdigit excel_cell excel_range pdf st =
     (let (out, st1, padded) = main_lists isdigit excel_cell excel_range pdf st;
          combined_quantity = padded ! 0;
          combined_prix_revient = padded ! 1;
          combined_accounts_identifiers = padded ! 2;
          max_rows = length combined_accounts_identifiers;
          (st2, rows) = assemble_rows combined_quantity combined_prix_revient
                          combined_accounts_identifiers [0 ..< max_rows] (st1, []);
          table = map (\<lambda>r. st2 ! r) rows
      in if rows \<noteq> []
         then \<lparr>stdout = out @ [Combined_data table, Data_saved],
               csv_file = Some (SCHEMA, table), store_after = st2,
               padded_dynamic_lists = padded, final_data_rows = rows\<rparr>
         else \<lparr>stdout = out @ [No_meaningful_data],
               csv_file = None, store_after = st2,
               padded_dynamic_lists = padded, final_data_rows = rows\<rparr>)"

section \<open>Inputs of the examples\<close>

text \<open>
  A sheet of one column and one row holding \<open>v\<close>; a sheet of one row with the two named
  columns; a page given by the text of its three rectangles.
\<close>

definition account_sheet :: "pyval \<Rightarrow> dataframe" where
  "account_sheet v = \<lparr>df_columns = [ustr ''Compte''], df_rows = [\<lambda>col. v]\<rparr>"

definition data_sheet :: "pyval \<Rightarrow> pyval \<Rightarrow> dataframe" where
  "data_sheet q p =
     \<lparr>df_columns = [EXCEL_VALUE_COL, EXCEL_CHANGE_COL],
      df_rows = [\<lambda>col. if col = EXCEL_VALUE_COL then q else p]\<rparr>"

definition page_of :: "pstr \<Rightarrow> pstr \<Rightarrow> pstr \<Rightarrow> pdf_page" where
  "page_of v c a key = (case key of Value_rect \<Rightarrow> v | Change_rect \<Rightarrow> c | Account_num_rect \<Rightarrow> a)"

section \<open>Properties of stores, rows and entries\<close>

text \<open>
  A store in which the two templates of the table exist and every list has 13 fields;
  \<open>same_static st st'\<close>: every list of \<open>st\<close> is still in \<open>st'\<close>, with the same length
  and the same fields but for 10 and 11.
\<close>

definition store_ok :: "store \<Rightarrow> bool" where
  "store_ok st = (2 \<le> length st \<and> list_all (\<lambda>row. length row = 13) st)"

definition same_static :: "store \<Rightarrow> store \<Rightarrow> bool" where
  "same_static st st' =
     (length st \<le> length st'
      \<and> (\<forall>b < length st. length (st' ! b) = length (st ! b)
            \<and> (\<forall>j. j \<noteq> 10 \<and> j \<noteq> 11 \<longrightarrow> st' ! b ! j = st ! b ! j)))"

text \<open>
  The fields of an output row that the loop does not assign, by the identifier of the
  row: all \<open>None\<close> for an absent identifier; all \<open>None\<close> but field 2, the trimmed string,
  for one whose key is not in the table; the template's fields for one whose key is.
\<close>

definition row_shape :: "pyval \<Rightarrow> pyval list \<Rightarrow> bool" where
  "row_shape account_id row =
     (length row = 13
      \<and> (if account_id = PNone
          then (\<forall>j < 13. j \<noteq> 10 \<and> j \<noteq> 11 \<longrightarrow> row ! j = PNone)
          else case LOOKUP_TABLE (first_three_digits (strip (py_str account_id))) of
                 None \<Rightarrow> row ! 2 = PStr (strip (py_str account_id))
                         \<and> (\<forall>j < 13. j \<noteq> 2 \<and> j \<noteq> 10 \<and> j \<noteq> 11 \<longrightarrow> row ! j = PNone)
               | Some t \<Rightarrow> (\<forall>j < 13. j \<noteq> 10 \<and> j \<noteq> 11 \<longrightarrow> row ! j = module_store ! t ! j)))"

text \<open>
  An entry of the numeric path: it has a digit, and each of its characters is a digit,
  the period or the Euro sign, and neither a space nor a comma.
\<close>

definition clean_entry :: "(pchar \<Rightarrow> bool) \<Rightarrow> pstr \<Rightarrow> bool" where
  "clean_entry isdigit e =
     (list_ex isdigit e
      \<and> list_all (\<lambda>c. (isdigit c \<or> c = 46 \<or> c = euro) \<and> c \<noteq> 32 \<and> c \<noteq> 44) e)"

section \<open>Evaluation of strings\<close>

lemmas str_defs = ustr_def euro_def isspace_def is_linebreak_def strip_def splitlines_def
  remove_char_def replace_char_def keep_char_def allowed_def ascii_isdigit_def
  stripped_lines_def clean_extracted_text_def

section \<open>Properties of the padding\<close>

lemma pad_length: "length (combine_and_pad_lists lsts) = length lsts"
  by (simp add: combine_and_pad_lists_def Let_def)

lemma pad_nth:
  assumes "i < length lsts"
  shows "combine_and_pad_lists lsts ! i
           = lsts ! i @ replicate (Max (length ` set lsts) - length (lsts ! i)) PNone"
  using assms by (auto simp: combine_and_pad_lists_def Let_def)

lemma pad_nth_length:
  assumes "i < length lsts"
  shows "length (combine_and_pad_lists lsts ! i) = Max (length ` set lsts)"
proof -
  have "length (lsts ! i) \<in> length ` set lsts" using assms by simp
  then have "length (lsts ! i) \<le> Max (length ` set lsts)" by (simp add: Max_ge)
  then show ?thesis using assms by (simp add: pad_nth)
qed

text \<open>
  C7. \<open>combine_and_pad_lists\<close> of the empty list is the empty list. Of a non-empty list
  of \<open>N\<close> sequences it returns \<open>N\<close> sequences, each as long as the longest input, the
  \<open>i\<close>-th being the \<open>i\<close>-th input followed by \<open>None\<close>s. On \<open>[[1,2],[1],[1,2,3]]\<close> it
  returns \<open>[[1,2,None],[1,None,None],[1,2,3]]\<close>.
\<close>

theorem combine_and_pad_lists_pads:
  "combine_and_pad_lists [] = []
   \<and> (lsts \<noteq> [] \<longrightarrow>
        length (combine_and_pad_lists lsts) = length lsts
        \<and> (\<forall>i < length lsts.
              length (combine_and_pad_lists lsts ! i) = Max (length ` set lsts)
              \<and> combine_and_pad_lists lsts ! i
                  = lsts ! i @ replicate (Max (length ` set lsts) - length (lsts ! i)) PNone))
   \<and> combine_and_pad_lists [[PInt 1, PInt 2], [PInt 1], [PInt 1, PInt 2, PInt 3]]
       = [[PInt 1, PInt 2, PNone], [PInt 1, PNone, PNone], [PInt 1, PInt 2, PInt 3]]"
proof (intro conjI impI allI)
  show "combine_and_pad_lists [] = []" by (simp add: combine_and_pad_lists_def)
  show "length (combine_and_pad_lists lsts) = length lsts" by (rule pad_length)
  show "combine_and_pad_lists [[PInt 1, PInt 2], [PInt 1], [PInt 1, PInt 2, PInt 3]]
       = [[PInt 1, PInt 2, PNone], [PInt 1, PNone, PNone], [PInt 1, PInt 2, PInt 3]]"
    by (simp add: combine_and_pad_lists_def Let_def numeral_eq_Suc)
next
  fix i assume "i < length lsts"
  then show "length (combine_and_pad_lists lsts ! i) = Max (length ` set lsts)"
    by (rule pad_nth_length)
next
  fix i assume "i < length lsts"
  then show "combine_and_pad_lists lsts ! i
                  = lsts ! i @ replicate (Max (length ` set lsts) - length (lsts ! i)) PNone"
    by (rule pad_nth)
qed

theorem combine_and_pad_lists_pads_witness:
  "[[PInt 4], []] \<noteq> []
   \<and> length (combine_and_pad_lists [[PInt 4], []]) = 2
   \<and> combine_and_pad_lists [[PInt 4], []] ! 0 = [PInt 4]
   \<and> combine_and_pad_lists [[PInt 4], []] ! 1 = [PNone]"
  using combine_and_pad_lists_pads [of "[[PInt 4], []]"] by simp

section \<open>Properties of the lookup\<close>

lemma lookup_none: "lookup_account_info PNone tbl st = (length st, st @ [replicate 13 PNone])"
  by (simp add: lookup_account_info_def)

lemma lookup_unmatched:
  assumes "account_num \<noteq> PNone"
    and "tbl (first_three_digits (strip (py_str account_num))) = None"
  shows "lookup_account_info account_num tbl st
           = (length st, st @ [(replicate 13 PNone)[2 := PStr (strip (py_str account_num))]])"
  using assms by (simp add: lookup_account_info_def Let_def set_item_def)

lemma lookup_matched:
  assumes "account_num \<noteq> PNone"
    and "tbl (first_three_digits (strip (py_str account_num))) = Some t"
  shows "lookup_account_info account_num tbl st = (t, st @ [replicate 13 PNone])"
  using assms by (simp add: lookup_account_info_def Let_def)

text \<open>
  C6. On \<open>None\<close> the lookup returns a list of 13 \<open>None\<close>. On an identifier whose key
  (the first three characters of its trimmed string form, or all of it when shorter) is
  not in the table, it returns a list of 13 fields, all \<open>None\<close> but field 2, which is the
  trimmed string form. \<open>lookup("999999")\<close> is all \<open>None\<close> but field 2, \<open>"999999"\<close>.
\<close>

theorem lookup_account_info_defaults:
  "(case lookup_account_info PNone tbl st of
      (r, st') \<Rightarrow> st' ! r = replicate 13 PNone)
   \<and> (account_num \<noteq> PNone \<and> tbl (first_three_digits (strip (py_str account_num))) = None \<longrightarrow>
        (case lookup_account_info account_num tbl st of
           (r, st') \<Rightarrow> length (st' ! r) = 13
                      \<and> st' ! r ! 2 = PStr (strip (py_str account_num))
                      \<and> (\<forall>j < 13. j \<noteq> 2 \<longrightarrow> st' ! r ! j = PNone)))
   \<and> (case lookup_account_info (PStr (ustr ''999999'')) LOOKUP_TABLE module_store of
         (r, st') \<Rightarrow> st' ! r = (replicate 13 PNone)[2 := PStr (ustr ''999999'')])"
proof (intro conjI impI)
  show "case lookup_account_info PNone tbl st of (r, st') \<Rightarrow> st' ! r = replicate 13 PNone"
    by (simp add: lookup_none)
next
  assume "account_num \<noteq> PNone \<and> tbl (first_three_digits (strip (py_str account_num))) = None"
  then have "lookup_account_info account_num tbl st
           = (length st, st @ [(replicate 13 PNone)[2 := PStr (strip (py_str account_num))]])"
    by (simp add: lookup_unmatched)
  then show "case lookup_account_info account_num tbl st of
           (r, st') \<Rightarrow> length (st' ! r) = 13
                      \<and> st' ! r ! 2 = PStr (strip (py_str account_num))
                      \<and> (\<forall>j < 13. j \<noteq> 2 \<longrightarrow> st' ! r ! j = PNone)"
    by simp
next
  have s: "strip (ustr ''999999'') = ustr ''999999''" by (simp add: str_defs)
  have k: "LOOKUP_TABLE (first_three_digits (ustr ''999999'')) = None"
    by (simp add: LOOKUP_TABLE_def first_three_digits_def ustr_def)
  show "case lookup_account_info (PStr (ustr ''999999'')) LOOKUP_TABLE module_store of
         (r, st') \<Rightarrow> st' ! r = (replicate 13 PNone)[2 := PStr (ustr ''999999'')]"
    using lookup_unmatched [of "PStr (ustr ''999999'')" LOOKUP_TABLE module_store] s k
    by simp
qed

theorem lookup_account_info_defaults_witness:
  "PStr (ustr '' 42 '') \<noteq> PNone
   \<and> LOOKUP_TABLE (first_three_digits (strip (py_str (PStr (ustr '' 42 ''))))) = None
   \<and> (case lookup_account_info (PStr (ustr '' 42 '')) LOOKUP_TABLE module_store of
         (r, st') \<Rightarrow> length (st' ! r) = 13 \<and> st' ! r ! 2 = PStr (ustr ''42'')
                      \<and> st' ! r ! 0 = PNone)"
proof -
  have s: "strip (py_str (PStr (ustr '' 42 ''))) = ustr ''42''" by (simp add: str_defs)
  have k: "LOOKUP_TABLE (first_three_digits (strip (py_str (PStr (ustr '' 42 ''))))) = None"
    unfolding s by (simp add: LOOKUP_TABLE_def first_three_digits_def ustr_def)
  show ?thesis
    using lookup_account_info_defaults [of LOOKUP_TABLE module_store "PStr (ustr '' 42 '')"] k s
    by (auto split: prod.splits)
qed

section \<open>Properties of the normalizer\<close>

lemma keep_char_iff: "keep_char isdigit c = (isdigit c \<or> c = 46 \<or> c = euro)"
  by (auto simp: keep_char_def allowed_def ustr_def)

text \<open>
  C3. The claim: the numeric path keeps the letters E, U and R, so that \<open>"5E"\<close> keeps
  its letter. The code compares each character with the string \<open>'EUR'\<close>, which no single
  character equals: \<open>"5E"\<close> is cleaned to \<open>"5"\<close> and \<open>"100 EUR"\<close> to \<open>"100"\<close>, and none of
  the three letters is kept.
\<close>

theorem clean_extracted_text_drops_letters:
  "clean_extracted_text ascii_isdigit (ustr ''5E'') False = [ustr ''5'']
   \<and> clean_extracted_text ascii_isdigit (ustr ''100 EUR'') False = [ustr ''100'']
   \<and> \<not> keep_char ascii_isdigit (of_char CHR ''E'')
   \<and> \<not> keep_char ascii_isdigit (of_char CHR ''U'')
   \<and> \<not> keep_char ascii_isdigit (of_char CHR ''R'')"
  by (simp add: str_defs)

lemma linebreak_isspace: "is_linebreak c \<Longrightarrow> isspace c"
  by (auto simp: is_linebreak_def isspace_def)

lemma splitlines_from_plain:
  "\<not> is_linebreak c \<Longrightarrow> splitlines_from cur (c # cs) = splitlines_from (cur @ [c]) cs"
proof (cases cs)
  case Nil
  assume "\<not> is_linebreak c" then show ?thesis using Nil by simp
next
  case (Cons d ds)
  assume n: "\<not> is_linebreak c"
  then have "c \<noteq> 13" by (auto simp: is_linebreak_def)
  then show ?thesis using Cons n by simp
qed

lemma splitlines_from_line:
  "\<forall>c \<in> set e. \<not> is_linebreak c \<Longrightarrow>
     splitlines_from cur (e @ rest) = splitlines_from (cur @ e) rest"
proof (induction e arbitrary: cur)
  case Nil
  then show ?case by simp
next
  case (Cons c e)
  then show ?case by (simp add: splitlines_from_plain del: splitlines_from.simps)
qed

lemma splitlines_from_newline:
  "splitlines_from cur (10 # rest) = cur # splitlines_from [] rest"
  by (cases rest) (simp_all add: is_linebreak_def)

lemma splitlines_single:
  assumes "\<forall>c \<in> set e. \<not> is_linebreak c"
  shows "splitlines e = (if e = [] then [] else [e])"
  using splitlines_from_line [OF assms, of "[]" "[]"] by (simp add: splitlines_def)

lemma splitlines_join:
  assumes "\<forall>e \<in> set es. e \<noteq> [] \<and> (\<forall>c \<in> set e. \<not> is_linebreak c)"
  shows "splitlines (join [10] es) = es"
  using assms
proof (induction es)
  case Nil
  then show ?case by (simp add: splitlines_def)
next
  case (Cons x es)
  note prems = Cons.prems and IH = Cons.IH
  show ?case
  proof (cases es)
    case Nil
    then show ?thesis using prems by (simp add: splitlines_single)
  next
    case (Cons y ys)
    have "splitlines (join [10] (x # y # ys)) = splitlines_from [] (x @ 10 # join [10] (y # ys))"
      by (simp add: splitlines_def)
    also have "\<dots> = splitlines_from x (10 # join [10] (y # ys))"
      using prems splitlines_from_line [of x "[]"] by simp
    also have "\<dots> = x # splitlines (join [10] (y # ys))"
      by (simp add: splitlines_from_newline splitlines_def)
    also have "\<dots> = x # y # ys" using IH prems Cons by simp
    finally show ?thesis using Cons by simp
  qed
qed

lemma strip_no_space:
  assumes "\<forall>c \<in> set e. \<not> isspace c"
  shows "strip e = e"
proof -
  have a: "dropWhile isspace xs = xs" if "\<forall>c \<in> set xs. \<not> isspace c" for xs
    using that by (cases xs) simp_all
  show ?thesis using assms by (simp add: strip_def a)
qed

lemma clean_lines_entries: "list_all (clean_entry isdigit) (clean_lines isdigit ls)"
proof (induction ls)
  case Nil
  then show ?case by simp
next
  case (Cons l ls)
  have "list_all (\<lambda>c. (isdigit c \<or> c = 46 \<or> c = euro) \<and> c \<noteq> 32 \<and> c \<noteq> 44)
          (filter (keep_char isdigit) (replace_char 44 46 (remove_char 32 l)))"
    by (auto simp: list_all_iff keep_char_iff replace_char_def remove_char_def)
  then show ?case using Cons by (simp add: Let_def clean_entry_def)
qed

lemma clean_lines_fixed:
  assumes "list_all (clean_entry isdigit) es"
  shows "clean_lines isdigit es = es"
  using assms
proof (induction es)
  case Nil
  then show ?case by simp
next
  case (Cons e es)
  then have e: "clean_entry isdigit e" by simp
  have r: "remove_char 32 e = e"
    using e by (auto simp: clean_entry_def remove_char_def list_all_iff intro: filter_True)
  have p: "replace_char 44 46 e = e"
    using e by (auto simp: clean_entry_def replace_char_def list_all_iff intro: map_idI)
  have f: "filter (keep_char isdigit) e = e"
    using e by (auto simp: clean_entry_def keep_char_iff list_all_iff intro: filter_True)
  show ?case using Cons e by (simp add: r p f Let_def clean_entry_def)
qed

lemma clean_entry_no_space:
  assumes "\<And>c. isdigit c \<Longrightarrow> \<not> isspace c" and "clean_entry isdigit e"
  shows "\<forall>c \<in> set e. \<not> isspace c"
proof
  fix c assume "c \<in> set e"
  then have "isdigit c \<or> c = 46 \<or> c = euro"
    using assms(2) by (auto simp: clean_entry_def list_all_iff)
  then show "\<not> isspace c" using assms(1) by (auto simp: isspace_def euro_def)
qed

lemma clean_entry_nonempty: "clean_entry isdigit e \<Longrightarrow> e \<noteq> []"
  by (auto simp: clean_entry_def)

lemma stripped_lines_join:
  assumes d: "\<And>c. isdigit c \<Longrightarrow> \<not> isspace c" and es: "list_all (clean_entry isdigit) es"
  shows "stripped_lines (join [10] es) = es"
proof -
  have ns: "\<forall>e \<in> set es. \<forall>c \<in> set e. \<not> isspace c"
    using clean_entry_no_space [OF d] es by (auto simp: list_all_iff)
  have ne: "\<forall>e \<in> set es. e \<noteq> []" using es clean_entry_nonempty by (auto simp: list_all_iff)
  have "\<forall>e \<in> set es. e \<noteq> [] \<and> (\<forall>c \<in> set e. \<not> is_linebreak c)"
    using ns ne linebreak_isspace by blast
  then have sp: "splitlines (join [10] es) = es" by (rule splitlines_join)
  have st: "\<forall>e \<in> set es. strip e = e" using ns strip_no_space by blast
  have "filter (\<lambda>entry. strip entry \<noteq> []) es = es"
    using st ne by (auto intro: filter_True)
  moreover have "map strip es = es" using st by (auto intro: map_idI)
  ultimately show ?thesis by (simp add: stripped_lines_def sp)
qed

lemma clean_numeric: "clean_extracted_text isdigit t False = clean_lines isdigit (stripped_lines t)"
  by (simp add: clean_extracted_text_def stripped_lines_def splitlines_def)

text \<open>
  C9. The numeric path is idempotent: cleaning the entries of \<open>clean_extracted_text(x)\<close>
  joined by line breaks gives the same entries, and every entry cleaned again is returned
  alone and unchanged. The table of \<open>str.isdigit\<close> is a parameter; what is used of it is
  that no digit is a whitespace character.
\<close>

theorem clean_extracted_text_idempotent:
  assumes "\<And>c. isdigit c \<Longrightarrow> \<not> isspace c"
  shows "clean_extracted_text isdigit (join [10] (clean_extracted_text isdigit x False)) False
           = clean_extracted_text isdigit x False
         \<and> list_all (\<lambda>e. clean_extracted_text isdigit e False = [e])
             (clean_extracted_text isdigit x False)"
proof
  let ?es = "clean_extracted_text isdigit x False"
  have es: "list_all (clean_entry isdigit) ?es"
    by (simp add: clean_numeric clean_lines_entries)
  show "clean_extracted_text isdigit (join [10] ?es) False = ?es"
    unfolding clean_numeric [of isdigit "join [10] ?es"]
    by (simp add: stripped_lines_join [OF assms es] clean_lines_fixed [OF es])
  show "list_all (\<lambda>e. clean_extracted_text isdigit e False = [e]) ?es"
    unfolding list_all_iff
  proof
    fix e assume "e \<in> set ?es"
    then have e: "list_all (clean_entry isdigit) [e]" using es by (simp add: list_all_iff)
    have "stripped_lines (join [10] [e]) = [e]" by (rule stripped_lines_join [OF assms e])
    then show "clean_extracted_text isdigit e False = [e]"
      using clean_lines_fixed [OF e] by (simp add: clean_numeric)
  qed
qed

lemma ascii_digit_no_space: "ascii_isdigit c \<Longrightarrow> \<not> isspace c"
  by (auto simp: ascii_isdigit_def isspace_def)

theorem clean_extracted_text_idempotent_witness:
  "clean_extracted_text ascii_isdigit (ustr ''1 234,56'' @ [10] @ ustr ''7 EUR'') False
     = [ustr ''1234.56'', ustr ''7'']
   \<and> clean_extracted_text ascii_isdigit (join [10] [ustr ''1234.56'', ustr ''7'']) False
     = [ustr ''1234.56'', ustr ''7'']
   \<and> clean_extracted_text ascii_isdigit (ustr ''1234.56'') False = [ustr ''1234.56'']"
proof -
  have v: "clean_extracted_text ascii_isdigit (ustr ''1 234,56'' @ [10] @ ustr ''7 EUR'') False
     = [ustr ''1234.56'', ustr ''7'']" by (simp add: str_defs)
  show ?thesis
    using clean_extracted_text_idempotent [of ascii_isdigit "ustr ''1 234,56'' @ [10] @ ustr ''7 EUR''",
        OF ascii_digit_no_space]
    unfolding v by simp
qed

section \<open>The store in the loop\<close>

lemma store_ok_module: "store_ok module_store"
  by (simp add: store_ok_def module_store_def juandi_def juanse_def)

lemma LOOKUP_TABLE_range: "LOOKUP_TABLE k = Some t \<Longrightarrow> t < 2"
  by (auto simp: LOOKUP_TABLE_def split: if_splits)

lemma same_static_refl: "same_static st st"
  by (simp add: same_static_def)

lemma same_static_trans: "same_static a b \<Longrightarrow> same_static b c \<Longrightarrow> same_static a c"
  by (auto simp: same_static_def)

lemma same_static_append: "same_static st (st @ [row])"
  by (simp add: same_static_def nth_append)

lemma set_item_nth:
  "set_item r i v st ! b = (if b = r \<and> r < length st then (st ! r)[i := v] else st ! b)"
proof (cases "r < length st")
  case True
  then show ?thesis by (auto simp: set_item_def nth_list_update)
next
  case False
  then show ?thesis by (simp add: set_item_def list_update_beyond)
qed

lemma set_item_length: "length (set_item r i v st) = length st"
  by (simp add: set_item_def)

lemma same_static_set_item:
  "i = 10 \<or> i = 11 \<Longrightarrow> same_static st (set_item r i v st)"
  by (auto simp: same_static_def set_item_nth set_item_length)

lemma store_ok_append: "store_ok st \<Longrightarrow> length row = 13 \<Longrightarrow> store_ok (st @ [row])"
  by (simp add: store_ok_def)

lemma store_ok_set_item: "store_ok st \<Longrightarrow> store_ok (set_item r i v st)"
  by (auto simp: store_ok_def list_all_length set_item_nth set_item_length)

lemma set_item_get:
  "r < length st \<Longrightarrow> i < length (st ! r) \<Longrightarrow> set_item r i v st ! r ! i = v"
  by (simp add: set_item_nth)

lemma set_item_other:
  "j \<noteq> i \<Longrightarrow> set_item r i v st ! b ! j = st ! b ! j"
  by (simp add: set_item_nth)

text \<open>What the lookup does to the store: one new list at the end.\<close>

lemma lookup_store:
  assumes "lookup_account_info account_id LOOKUP_TABLE st = (t, st1)"
    and "store_ok st" and "same_static module_store st"
  shows "store_ok st1 \<and> same_static st st1 \<and> t < length st1 \<and> row_shape account_id (st1 ! t)"
proof -
  consider (none) "account_id = PNone"
    | (unmatched) "account_id \<noteq> PNone"
        "LOOKUP_TABLE (first_three_digits (strip (py_str account_id))) = None"
    | (matched) t0 where "account_id \<noteq> PNone"
        "LOOKUP_TABLE (first_three_digits (strip (py_str account_id))) = Some t0"
    by (cases "LOOKUP_TABLE (first_three_digits (strip (py_str account_id)))") auto
  then show ?thesis
  proof cases
    case none
    then have e: "t = length st" "st1 = st @ [replicate 13 PNone]"
      using assms(1) by (simp_all add: lookup_none)
    show ?thesis using assms(2) none
      by (simp add: e store_ok_append same_static_append row_shape_def)
  next
    case unmatched
    then have e: "t = length st"
      "st1 = st @ [(replicate 13 PNone)[2 := PStr (strip (py_str account_id))]]"
      using assms(1) by (simp_all add: lookup_unmatched)
    show ?thesis using assms(2) unmatched
      by (simp add: e store_ok_append same_static_append row_shape_def)
  next
    case matched
    then have e: "t = t0" "st1 = st @ [replicate 13 PNone]"
      using assms(1) by (simp_all add: lookup_matched)
    have t2: "t0 < 2" using matched(2) by (rule LOOKUP_TABLE_range)
    then have tl: "t0 < length st" using assms(2) by (simp add: store_ok_def)
    have tm: "t0 < length module_store" using t2 by (simp add: module_store_def)
    have l13: "length (st ! t0) = 13"
      using assms(2) tl by (simp add: store_ok_def list_all_length)
    have "row_shape account_id (st ! t0)"
      using assms(3) matched tm l13 by (auto simp: row_shape_def same_static_def)
    then show ?thesis using assms(2) matched tl
      by (auto simp: e store_ok_append same_static_append nth_append)
  qed
qed

lemma row_shape_static:
  assumes "same_static st st'" and "b < length st" and "row_shape account_id (st ! b)"
  shows "row_shape account_id (st' ! b)"
  using assms by (auto simp: row_shape_def same_static_def split: option.splits)

text \<open>One turn of the loop.\<close>

lemma assemble_row_step:
  assumes ok: "store_ok st" and ms: "same_static module_store st"
  obtains t st' where "assemble_row q p a i (st, rows) = (st', rows @ [t])"
    and "store_ok st'" and "same_static st st'" and "t < length st'"
    and "row_shape (a ! i) (st' ! t)"
    and "i < length q \<Longrightarrow> st' ! t ! 10 = q ! i"
    and "i < length p \<Longrightarrow> st' ! t ! 11 = p ! i"
proof -
  obtain t st1 where l: "lookup_account_info (a ! i) LOOKUP_TABLE st = (t, st1)"
    by (cases "lookup_account_info (a ! i) LOOKUP_TABLE st")
  from lookup_store [OF l ok ms]
  have ok1: "store_ok st1" and s1: "same_static st st1" and t1: "t < length st1"
    and sh1: "row_shape (a ! i) (st1 ! t)" by simp_all
  define st2 where "st2 = (if i < length q then set_item t 10 (q ! i) st1 else st1)"
  define st3 where "st3 = (if i < length p then set_item t 11 (p ! i) st2 else st2)"
  have r: "assemble_row q p a i (st, rows) = (st3, rows @ [t])"
    by (simp add: assemble_row_def l st2_def st3_def Let_def)
  have ok2: "store_ok st2" using ok1 by (simp add: st2_def store_ok_set_item)
  have ok3: "store_ok st3" using ok2 by (simp add: st3_def store_ok_set_item)
  have s12: "same_static st1 st2" by (simp add: st2_def same_static_set_item same_static_refl)
  have s23: "same_static st2 st3" by (simp add: st3_def same_static_set_item same_static_refl)
  have s13: "same_static st1 st3" using s12 s23 by (rule same_static_trans)
  have s03: "same_static st st3" using s1 s13 by (rule same_static_trans)
  have len: "length st2 = length st1" "length st3 = length st1"
    by (simp_all add: st2_def st3_def set_item_length)
  have l13: "length (st1 ! t) = 13" "length (st2 ! t) = 13"
    using ok1 ok2 t1 len by (simp_all add: store_ok_def list_all_length)
  have sh3: "row_shape (a ! i) (st3 ! t)" using s13 t1 sh1 by (rule row_shape_static)
  have q10: "st3 ! t ! 10 = q ! i" if "i < length q"
  proof -
    have "st2 ! t ! 10 = q ! i" using that t1 l13 by (simp add: st2_def set_item_get)
    then show ?thesis by (simp add: st3_def set_item_other)
  qed
  have p11: "st3 ! t ! 11 = p ! i" if "i < length p"
    using that t1 l13 len by (simp add: st3_def set_item_get)
  show ?thesis
    using that [OF r ok3 s03 _ sh3 q10 p11] t1 len by simp
qed

text \<open>The loop: every row appended has the shape of its identifier, in the last store.\<close>

lemma assemble_rows_shapes:
  assumes "store_ok st" and "same_static module_store st"
    and "list_all2 (\<lambda>account_id r. r < length st \<and> row_shape account_id (st ! r)) ids rows"
  shows "case assemble_rows q p a js (st, rows) of
           (st', rows') \<Rightarrow>
             store_ok st' \<and> same_static module_store st'
             \<and> list_all2 (\<lambda>account_id r. r < length st' \<and> row_shape account_id (st' ! r))
                 (ids @ map (\<lambda>i. a ! i) js) rows'"
  using assms
proof (induction js arbitrary: st rows ids)
  case Nil
  then show ?case by simp
next
  case (Cons i js)
  obtain t st' where r: "assemble_row q p a i (st, rows) = (st', rows @ [t])"
    and ok': "store_ok st'" and s': "same_static st st'" and t': "t < length st'"
    and sh': "row_shape (a ! i) (st' ! t)"
    using assemble_row_step [OF Cons.prems(1) Cons.prems(2)] by metis
  have ms': "same_static module_store st'"
    using Cons.prems(2) s' by (rule same_static_trans)
  have le: "length st \<le> length st'" using s' by (simp add: same_static_def)
  have old: "list_all2 (\<lambda>account_id r. r < length st' \<and> row_shape account_id (st' ! r)) ids rows"
    using Cons.prems(3) le row_shape_static [OF s']
    by (auto elim!: list_all2_mono)
  have new: "list_all2 (\<lambda>account_id r. r < length st' \<and> row_shape account_id (st' ! r))
               (ids @ [a ! i]) (rows @ [t])"
    using old t' sh' by (simp add: list_all2_appendI)
  show ?case using Cons.IH [OF ok' ms' new] by (simp add: r)
qed

lemma assemble_rows_append:
  "assemble_rows q p a (xs @ ys) s = assemble_rows q p a ys (assemble_rows q p a xs s)"
  by (induction xs arbitrary: s) simp_all

lemma assemble_rows_length:
  "length (snd (assemble_rows q p a js s)) = length (snd s) + length js"
proof (induction js arbitrary: s)
  case Nil
  then show ?case by simp
next
  case (Cons i js)
  have "length (snd (assemble_row q p a i s)) = Suc (length (snd s))"
    by (simp add: assemble_row_def Let_def split: prod.splits)
  then show ?case using Cons.IH [of "assemble_row q p a i s"] by simp
qed

section \<open>Runs of the pipeline\<close>

lemma read_missing: "read_excel_data FileNotFoundError kw = ([Excel_file_not_found], None)"
  by (simp add: read_excel_data_def)

lemma read_cell:
  "read_excel_data (Returned (account_sheet v)) EXCEL_ACCOUNT_CELL = ([], Some (Cell v))"
  by (simp add: read_excel_data_def EXCEL_ACCOUNT_CELL_def account_sheet_def)

lemma read_range: "read_excel_data (Returned df) EXCEL_DATA_RANGE = ([], Some (Frame df))"
  by (simp add: read_excel_data_def EXCEL_DATA_RANGE_def ustr_def)

lemma pdf_missing: "extract_pdf_data FileNotFoundError n = ([Pdf_file_not_found], \<lambda>key. [])"
  by (simp add: extract_pdf_data_def)

lemma pdf_first_page:
  "extract_pdf_data (Returned (page # pages)) 1 = ([], \<lambda>key. splitlines (strip (page key)))"
  "extract_pdf_data (Returned (page # pages)) (Suc 0)
     = ([], \<lambda>key. splitlines (strip (page key)))"
  by (simp_all add: extract_pdf_data_def)

lemma clean_empty: "clean_extracted_text isdigit [] b = []"
  by (simp add: clean_extracted_text_def)

lemma column_head_none: "excel_column_head None col = []"
  by (simp add: excel_column_head_def)

lemma pad_three:
  "combine_and_pad_lists [q, p, a]
     = [q @ replicate (max (length q) (max (length p) (length a)) - length q) PNone,
        p @ replicate (max (length q) (max (length p) (length a)) - length p) PNone,
        a @ replicate (max (length q) (max (length p) (length a)) - length a) PNone]"
  by (simp add: combine_and_pad_lists_def Let_def)

lemma combined_no_pdf:
  "combined_lists isdigit excel_account df_excel (\<lambda>key. [])
     = [excel_column_head df_excel EXCEL_VALUE_COL, excel_column_head df_excel EXCEL_CHANGE_COL,
        if excel_account \<noteq> PNone then [excel_account] else []]"
  by (simp add: combined_lists_def clean_empty)

lemma key_193: "LOOKUP_TABLE (first_three_digits (strip (ustr ''193''))) = Some 0"
  by (simp add: LOOKUP_TABLE_def first_three_digits_def str_defs)

lemma lookup_193:
  "lookup_account_info (PStr (ustr ''193'')) LOOKUP_TABLE st = (0, st @ [replicate 13 PNone])"
  using lookup_matched [of "PStr (ustr ''193'')" LOOKUP_TABLE 0 st] key_193 by simp

lemma lists_missing:
  "main_lists isdigit FileNotFoundError FileNotFoundError FileNotFoundError module_store
     = ([Excel_file_not_found, Excel_file_not_found, Account_from_excel PNone,
         Excel_account_lookup PNone PNone PNone, Pdf_file_not_found],
        module_store @ [replicate 13 PNone], [[], [], []])"
  by (simp add: main_lists_def read_missing pdf_missing lookup_none combined_no_pdf
      column_head_none pad_three module_store_def)

lemma main_missing:
  "main isdigit FileNotFoundError FileNotFoundError FileNotFoundError module_store
     = \<lparr>stdout = [Excel_file_not_found, Excel_file_not_found, Account_from_excel PNone,
         Excel_account_lookup PNone PNone PNone, Pdf_file_not_found, No_meaningful_data],
        csv_file = None, store_after = module_store @ [replicate 13 PNone],
        padded_dynamic_lists = [[], [], []], final_data_rows = []\<rparr>"
  unfolding main_def lists_missing by simp

lemma lists_193:
  "main_lists isdigit (Returned (account_sheet (PStr (ustr ''193'')))) FileNotFoundError
       FileNotFoundError module_store
     = ([Excel_file_not_found, Account_from_excel (PStr (ustr ''193'')),
         Excel_account_lookup (juandi ! 2) (juandi ! 0) (juandi ! 8), Pdf_file_not_found],
        module_store @ [replicate 13 PNone], [[PNone], [PNone], [PStr (ustr ''193'')]])"
  by (simp add: main_lists_def read_missing read_cell pdf_missing lookup_193 combined_no_pdf
      column_head_none pad_three module_store_def Let_def)

lemma juandi_unchanged: "juandi[10 := PNone, 11 := PNone] = juandi"
  by (simp add: juandi_def)

lemma main_193:
  "csv_file (main isdigit (Returned (account_sheet (PStr (ustr ''193'')))) FileNotFoundError
       FileNotFoundError module_store) = Some (SCHEMA, [juandi])"
  unfolding main_def lists_193
  by (simp add: assemble_row_def lookup_193 set_item_def module_store_def juandi_unchanged Let_def)


lemma combined_lists_three: "\<exists>q p a. combined_lists isdigit ea df raw = [q, p, a]"
  by (simp add: combined_lists_def Let_def)

lemma main_lists_props:
  assumes "main_lists isdigit excel_cell excel_range pdf module_store = (out, st1, padded)"
  shows "store_ok st1" and "same_static module_store st1" and "length padded = 3"
    and "length (padded ! 0) = length (padded ! 2)"
    and "length (padded ! 1) = length (padded ! 2)"
proof -
  define ea where "ea = cell_of (snd (read_excel_data excel_cell EXCEL_ACCOUNT_CELL))"
  define df where "df = frame_of (snd (read_excel_data excel_range EXCEL_DATA_RANGE))"
  define raw where "raw = snd (extract_pdf_data pdf 1)"
  obtain t where l: "lookup_account_info ea LOOKUP_TABLE module_store = (t, st1)"
    using assms by (auto simp: main_lists_def Let_def ea_def split: prod.splits)
  have p: "padded = combine_and_pad_lists (combined_lists isdigit ea df raw)"
    using assms by (auto simp: main_lists_def Let_def ea_def df_def raw_def split: prod.splits)
  from lookup_store [OF l store_ok_module same_static_refl]
  show "store_ok st1" and "same_static module_store st1"
    using same_static_trans by simp_all
  obtain q p' a where c: "combined_lists isdigit ea df raw = [q, p', a]"
    using combined_lists_three by blast
  show "length padded = 3" and "length (padded ! 0) = length (padded ! 2)"
    and "length (padded ! 1) = length (padded ! 2)"
    unfolding p c pad_three by simp_all
qed

lemma main_unfold:
  assumes "main_lists isdigit excel_cell excel_range pdf st = (out, st1, padded)"
    and "assemble_rows (padded ! 0) (padded ! 1) (padded ! 2) [0 ..< length (padded ! 2)] (st1, [])
           = (st2, rows)"
  shows "main isdigit excel_cell excel_range pdf st
           = \<lparr>stdout = out @ (if rows \<noteq> [] then [Combined_data (map (\<lambda>r. st2 ! r) rows), Data_saved]
                               else [No_meaningful_data]),
              csv_file = (if rows \<noteq> [] then Some (SCHEMA, map (\<lambda>r. st2 ! r) rows) else None),
              store_after = st2, padded_dynamic_lists = padded, final_data_rows = rows\<rparr>"
  using assms by (simp add: main_def Let_def)

lemma key_100: "LOOKUP_TABLE (first_three_digits (strip (ustr ''100123456''))) = Some 1"
  by (simp add: LOOKUP_TABLE_def first_three_digits_def str_defs)

lemma lookup_100:
  "lookup_account_info (PStr (ustr ''100123456'')) LOOKUP_TABLE st
     = (1, st @ [replicate 13 PNone])"
  using lookup_matched [of "PStr (ustr ''100123456'')" LOOKUP_TABLE 1 st] key_100 by simp

lemma read_sheet:
  assumes "df_rows sheet \<noteq> []" and "df_columns sheet \<noteq> []"
  shows "read_excel_data (Returned sheet) EXCEL_ACCOUNT_CELL
           = ([], Some (Cell ((df_rows sheet ! 0) (df_columns sheet ! 0))))"
  using assms by (simp add: read_excel_data_def EXCEL_ACCOUNT_CELL_def)

lemma column_head_some:
  assumes "df_rows df \<noteq> []"
  shows "excel_column_head (Some df) col
           = (if col \<in> set (df_columns df) then [(df_rows df ! 0) col] else [])"
  using assms by (simp add: excel_column_head_def)

lemma clean_value_1500:
  assumes "isdigit 48" and "isdigit 49" and "isdigit 53"
  shows "clean_extracted_text isdigit (join (ustr '' '') (splitlines (strip (ustr ''1.500,00'')))) False
           = [ustr ''1.500.00'']"
proof -
  have j: "join (ustr '' '') (splitlines (strip (ustr ''1.500,00''))) = ustr ''1.500,00''"
    by (simp add: str_defs)
  have s: "stripped_lines (ustr ''1.500,00'') = [ustr ''1.500,00'']"
    by (simp add: str_defs)
  have c: "clean_lines isdigit [ustr ''1.500,00''] = [ustr ''1.500.00'']"
    using assms by (simp add: ustr_def remove_char_def replace_char_def keep_char_iff Let_def)
  have n: "ustr ''1.500,00'' \<noteq> []" by (simp add: ustr_def)
  show ?thesis unfolding j clean_numeric s c by simp
qed

lemma clean_account_100:
  "clean_extracted_text isdigit (join (ustr '' '') (splitlines (strip (ustr ''100123456'')))) True
     = [ustr ''100123456'']"
  by (simp add: str_defs)

lemma join_nil: "join sep (splitlines (strip [])) = []"
  by (simp add: str_defs)

text \<open>The end-to-end example of the specification, for any sheet, range and page of its kind.\<close>

lemma end_to_end_run:
  assumes d: "isdigit 48" "isdigit 49" "isdigit 53"
    and cell: "df_rows sheet \<noteq> []" "df_columns sheet \<noteq> []"
      "(df_rows sheet ! 0) (df_columns sheet ! 0) = PStr (ustr ''193'')"
    and range: "df_rows df \<noteq> []" "EXCEL_VALUE_COL \<in> set (df_columns df)"
    and page: "page Value_rect = ustr ''1.500,00''" "page Change_rect = []"
      "page Account_num_rect = ustr ''100123456''"
  shows "csv_file (main isdigit (Returned sheet) (Returned df) (Returned (page # pages)) module_store)
           = Some (SCHEMA,
               [juandi[10 := (df_rows df ! 0) EXCEL_VALUE_COL,
                       11 := (if EXCEL_CHANGE_COL \<in> set (df_columns df)
                              then (df_rows df ! 0) EXCEL_CHANGE_COL else PNone)],
                juanse[10 := PStr (ustr ''1.500.00''), 11 := PNone]])"
proof -
  let ?q = "(df_rows df ! 0) EXCEL_VALUE_COL"
  let ?p = "if EXCEL_CHANGE_COL \<in> set (df_columns df) then (df_rows df ! 0) EXCEL_CHANGE_COL else PNone"
  have cl: "combined_lists isdigit (PStr (ustr ''193'')) (Some df) (\<lambda>key. splitlines (strip (page key)))
              = [[?q, PStr (ustr ''1.500.00'')],
                 if EXCEL_CHANGE_COL \<in> set (df_columns df) then [(df_rows df ! 0) EXCEL_CHANGE_COL] else [],
                 [PStr (ustr ''193''), PStr (ustr ''100123456'')]]"
    using range
    by (simp add: combined_lists_def page clean_value_1500 [OF d] clean_account_100 join_nil
        clean_empty column_head_some [OF range(1)])
  have ml: "main_lists isdigit (Returned sheet) (Returned df) (Returned (page # pages)) module_store
              = ([Account_from_excel (PStr (ustr ''193'')),
                  Excel_account_lookup (juandi ! 2) (juandi ! 0) (juandi ! 8)],
                 [juandi, juanse, replicate 13 PNone],
                 [[?q, PStr (ustr ''1.500.00'')], [?p, PNone],
                  [PStr (ustr ''193''), PStr (ustr ''100123456'')]])"
    by (simp add: main_lists_def read_sheet [OF cell(1,2)] cell(3) read_range lookup_193
        pdf_first_page cl pad_three module_store_def Let_def)
  show ?thesis
    unfolding main_def ml
    by (simp add: assemble_row_def lookup_193 lookup_100 set_item_def Let_def upt_rec)
qed


lemma main_193_run:
  "main isdigit (Returned (account_sheet (PStr (ustr ''193'')))) FileNotFoundError
       FileNotFoundError module_store
     = \<lparr>stdout = [Excel_file_not_found, Account_from_excel (PStr (ustr ''193'')),
                   Excel_account_lookup (juandi ! 2) (juandi ! 0) (juandi ! 8),
                   Pdf_file_not_found, Combined_data [juandi], Data_saved],
        csv_file = Some (SCHEMA, [juandi]),
        store_after = [juandi, juanse, replicate 13 PNone, replicate 13 PNone],
        padded_dynamic_lists = [[PNone], [PNone], [PStr (ustr ''193'')]],
        final_data_rows = [0]\<rparr>"
  unfolding main_def lists_193
  by (simp add: assemble_row_def lookup_193 set_item_def module_store_def juandi_unchanged Let_def)

lemma account_sheet_facts:
  "df_rows (account_sheet v) \<noteq> []" "df_columns (account_sheet v) \<noteq> []"
  "(df_rows (account_sheet v) ! 0) (df_columns (account_sheet v) ! 0) = v"
  by (simp_all add: account_sheet_def)

lemma data_sheet_facts:
  "df_rows (data_sheet q p) \<noteq> []" "EXCEL_VALUE_COL \<in> set (df_columns (data_sheet q p))"
  "EXCEL_CHANGE_COL \<in> set (df_columns (data_sheet q p))"
  "(df_rows (data_sheet q p) ! 0) EXCEL_VALUE_COL = q"
  "(df_rows (data_sheet q p) ! 0) EXCEL_CHANGE_COL = p"
  by (simp_all add: data_sheet_def EXCEL_VALUE_COL_def EXCEL_CHANGE_COL_def ustr_def)

lemma page_of_facts:
  "page_of v c a Value_rect = v" "page_of v c a Change_rect = c"
  "page_of v c a Account_num_rect = a"
  by (simp_all add: page_of_def)

lemma ascii_digits: "ascii_isdigit 48" "ascii_isdigit 49" "ascii_isdigit 53"
  by (simp_all add: ascii_isdigit_def)

lemma key_193000: "LOOKUP_TABLE (first_three_digits (strip (ustr ''193000''))) = Some 0"
  by (simp add: LOOKUP_TABLE_def first_three_digits_def str_defs)

lemma lookup_193000:
  "lookup_account_info (PStr (ustr ''193000'')) LOOKUP_TABLE st = (0, st @ [replicate 13 PNone])"
  using lookup_matched [of "PStr (ustr ''193000'')" LOOKUP_TABLE 0 st] key_193000 by simp

lemma shared_template_lists:
  "main_lists ascii_isdigit (Returned (account_sheet (PStr (ustr ''193''))))
     (Returned (data_sheet (PInt 1000) (PInt 1100)))
     (Returned [page_of (ustr ''5'') [] (ustr ''193000'')]) module_store
   = ([Account_from_excel (PStr (ustr ''193'')),
       Excel_account_lookup (juandi ! 2) (juandi ! 0) (juandi ! 8)],
      [juandi, juanse, replicate 13 PNone],
      [[PInt 1000, PStr (ustr ''5'')], [PInt 1100, PNone],
       [PStr (ustr ''193''), PStr (ustr ''193000'')]])"
proof -
  have v: "clean_extracted_text ascii_isdigit
             (join (ustr '' '') (splitlines (strip (ustr ''5'')))) False = [ustr ''5'']"
    by (simp add: str_defs)
  have a: "clean_extracted_text ascii_isdigit
             (join (ustr '' '') (splitlines (strip (ustr ''193000'')))) True = [ustr ''193000'']"
    by (simp add: str_defs)
  have cl: "combined_lists ascii_isdigit (PStr (ustr ''193'')) (Some (data_sheet (PInt 1000) (PInt 1100)))
              (\<lambda>key. splitlines (strip (page_of (ustr ''5'') [] (ustr ''193000'') key)))
              = [[PInt 1000, PStr (ustr ''5'')], [PInt 1100],
                 [PStr (ustr ''193''), PStr (ustr ''193000'')]]"
    by (simp add: combined_lists_def page_of_facts v a join_nil clean_empty
        column_head_some [OF data_sheet_facts(1)] data_sheet_facts)
  show ?thesis
    by (simp add: main_lists_def read_cell read_range lookup_193
        pdf_first_page cl pad_three module_store_def Let_def)
qed

lemma shared_template_rows:
  "csv_file (main ascii_isdigit (Returned (account_sheet (PStr (ustr ''193''))))
       (Returned (data_sheet (PInt 1000) (PInt 1100)))
       (Returned [page_of (ustr ''5'') [] (ustr ''193000'')]) module_store)
     = Some (SCHEMA, [juandi[10 := PStr (ustr ''5''), 11 := PNone],
                      juandi[10 := PStr (ustr ''5''), 11 := PNone]])"
  unfolding main_def shared_template_lists
  by (simp add: assemble_row_def lookup_193 lookup_193000 set_item_def Let_def upt_rec juandi_def)

lemma lists_failed_reads:
  assumes "pdf = FileNotFoundError \<or> pdf = OtherException"
  shows "snd (main_lists isdigit FileNotFoundError FileNotFoundError pdf module_store)
           = (module_store @ [replicate 13 PNone], [[], [], []])"
  using assms
  by (auto simp: main_lists_def read_missing extract_pdf_data_def lookup_none combined_no_pdf
      column_head_none pad_three module_store_def)

lemma main_failed_reads:
  assumes "pdf = FileNotFoundError \<or> pdf = OtherException"
  shows "final_data_rows (main isdigit FileNotFoundError FileNotFoundError pdf module_store) = []"
    and "csv_file (main isdigit FileNotFoundError FileNotFoundError pdf module_store) = None"
    and "last (stdout (main isdigit FileNotFoundError FileNotFoundError pdf module_store))
           = No_meaningful_data"
proof -
  obtain out where
    "main_lists isdigit FileNotFoundError FileNotFoundError pdf module_store
       = (out, module_store @ [replicate 13 PNone], [[], [], []])"
    using lists_failed_reads [OF assms, of isdigit]
    by (cases "main_lists isdigit FileNotFoundError FileNotFoundError pdf module_store") simp
  then show "final_data_rows (main isdigit FileNotFoundError FileNotFoundError pdf module_store) = []"
    and "csv_file (main isdigit FileNotFoundError FileNotFoundError pdf module_store) = None"
    and "last (stdout (main isdigit FileNotFoundError FileNotFoundError pdf module_store))
           = No_meaningful_data"
    by (simp_all add: main_def)
qed

text \<open>
  C4 (as the code has it). With the spreadsheet account cell \<open>"193"\<close>, a spreadsheet
  range that has the acquisition-cost column, the value rectangle \<open>"1.500,00"\<close>, the
  account rectangle \<open>"100123456"\<close> and an empty change rectangle on the first page, the
  output has exactly two rows: row 0 is the template of \<open>"193"\<close> with the spreadsheet's
  acquisition cost as quantity, row 1 the template of \<open>"100"\<close> with the quantity
  \<open>"1.500.00"\<close>: the comma becomes a period and the period of the input stays.
\<close>

theorem end_to_end_two_rows:
  assumes "isdigit 48" and "isdigit 49" and "isdigit 53"
    and "df_rows sheet \<noteq> []" and "df_columns sheet \<noteq> []"
    and "(df_rows sheet ! 0) (df_columns sheet ! 0) = PStr (ustr ''193'')"
    and "df_rows df \<noteq> []" and "EXCEL_VALUE_COL \<in> set (df_columns df)"
    and "page Value_rect = ustr ''1.500,00''" and "page Change_rect = []"
    and "page Account_num_rect = ustr ''100123456''"
  shows "\<exists>row0 row1.
           csv_file (main isdigit (Returned sheet) (Returned df) (Returned (page # pages))
                       module_store) = Some (SCHEMA, [row0, row1])
           \<and> length row0 = 13 \<and> length row1 = 13
           \<and> (\<forall>j < 13. j \<noteq> 10 \<and> j \<noteq> 11 \<longrightarrow> row0 ! j = module_store ! 0 ! j)
           \<and> (\<forall>j < 13. j \<noteq> 10 \<and> j \<noteq> 11 \<longrightarrow> row1 ! j = module_store ! 1 ! j)
           \<and> LOOKUP_TABLE (ustr ''193'') = Some 0 \<and> LOOKUP_TABLE (ustr ''100'') = Some 1
           \<and> row0 ! 10 = (df_rows df ! 0) EXCEL_VALUE_COL
           \<and> row1 ! 10 = PStr (ustr ''1.500.00'')"
proof -
  have t: "LOOKUP_TABLE (ustr ''193'') = Some 0 \<and> LOOKUP_TABLE (ustr ''100'') = Some 1"
    by (simp add: LOOKUP_TABLE_def ustr_def)
  have l: "length juandi = 13" "length juanse = 13" by (simp_all add: juandi_def juanse_def)
  show ?thesis
    unfolding end_to_end_run [OF assms]
    using t l by (simp add: module_store_def)
qed

theorem end_to_end_two_rows_witness:
  "(\<exists>row0 row1.
      csv_file (main ascii_isdigit (Returned (account_sheet (PStr (ustr ''193''))))
                  (Returned (data_sheet (PInt 1000) (PInt 1100)))
                  (Returned [page_of (ustr ''1.500,00'') [] (ustr ''100123456'')])
                  module_store) = Some (SCHEMA, [row0, row1])
      \<and> row0 ! 0 = PStr (ustr ''Juandi'') \<and> row0 ! 10 = PInt 1000
      \<and> row1 ! 0 = PStr (ustr ''Juanse'') \<and> row1 ! 10 = PStr (ustr ''1.500.00''))"
proof -
  note a = account_sheet_facts [where v = "PStr (ustr ''193'')"]
  note d = data_sheet_facts [where q = "PInt 1000" and p = "PInt 1100"]
  note g = page_of_facts [where v = "ustr ''1.500,00''" and c = "[]" and a = "ustr ''100123456''"]
  from end_to_end_two_rows [OF ascii_digits a d(1,2) g, where pages = "[]"]
  obtain row0 row1 where
    "csv_file (main ascii_isdigit (Returned (account_sheet (PStr (ustr ''193''))))
                  (Returned (data_sheet (PInt 1000) (PInt 1100)))
                  (Returned [page_of (ustr ''1.500,00'') [] (ustr ''100123456'')])
                  module_store) = Some (SCHEMA, [row0, row1])"
    and "\<forall>j < 13. j \<noteq> 10 \<and> j \<noteq> 11 \<longrightarrow> row0 ! j = module_store ! 0 ! j"
    and "\<forall>j < 13. j \<noteq> 10 \<and> j \<noteq> 11 \<longrightarrow> row1 ! j = module_store ! 1 ! j"
    and "row0 ! 10 = PInt 1000" and "row1 ! 10 = PStr (ustr ''1.500.00'')"
    by (auto simp: d)
  moreover have "module_store ! 0 ! 0 = PStr (ustr ''Juandi'')"
    "module_store ! 1 ! 0 = PStr (ustr ''Juanse'')"
    by (simp_all add: module_store_def juandi_def juanse_def)
  ultimately show ?thesis by auto
qed

text \<open>
  Counterexample to C4 as stated: the claim gives \<open>"1500.00"\<close> as the quantity of
  row 1; on its input the quantity is \<open>"1.500.00"\<close>.
\<close>

theorem end_to_end_quantity_counterexample:
  "csv_file (main ascii_isdigit (Returned (account_sheet (PStr (ustr ''193''))))
               (Returned (data_sheet (PInt 1000) (PInt 1100)))
               (Returned [page_of (ustr ''1.500,00'') [] (ustr ''100123456'')])
               module_store)
     = Some (SCHEMA, [juandi[10 := PInt 1000, 11 := PInt 1100],
                      juanse[10 := PStr (ustr ''1.500.00''), 11 := PNone]])
   \<and> juanse[10 := PStr (ustr ''1.500.00''), 11 := PNone] ! 10 \<noteq> PStr (ustr ''1500.00'')"
proof -
  note a = account_sheet_facts [where v = "PStr (ustr ''193'')"]
  note d = data_sheet_facts [where q = "PInt 1000" and p = "PInt 1100"]
  note g = page_of_facts [where v = "ustr ''1.500,00''" and c = "[]" and a = "ustr ''100123456''"]
  have n: "juanse[10 := PStr (ustr ''1.500.00''), 11 := PNone] ! 10 \<noteq> PStr (ustr ''1500.00'')"
    by (simp add: juanse_def ustr_def)
  show ?thesis
    using end_to_end_run [OF ascii_digits a d(1,2) g, where pages = "[]"] n
    by (simp add: d)
qed

text \<open>
  C5 (as the code has it). Every row of the output has exactly 13 fields. Apart from
  fields 10 and 11, which the loop assigns: a row for an absent identifier is all
  \<open>None\<close>; a row for an identifier whose key is not in the table is all \<open>None\<close> but
  field 2, the trimmed string; a row for an identifier whose key is in the table has the
  fields of the table's template, and both templates hold the empty string in field 6.
\<close>

theorem output_rows_shape:
  "(let run = main isdigit excel_cell excel_range pdf module_store;
        ids = padded_dynamic_lists run ! 2;
        table = map (\<lambda>r. store_after run ! r) (final_data_rows run)
    in csv_file run = (if table = [] then None else Some (SCHEMA, table))
       \<and> list_all2 row_shape ids table)
   \<and> module_store ! 0 ! 6 = PStr [] \<and> module_store ! 1 ! 6 = PStr []"
proof -
  obtain out st1 padded
    where ml: "main_lists isdigit excel_cell excel_range pdf module_store = (out, st1, padded)"
    by (cases "main_lists isdigit excel_cell excel_range pdf module_store")
  let ?q = "padded ! 0" and ?p = "padded ! 1" and ?a = "padded ! 2"
  obtain st2 rows
    where lp: "assemble_rows ?q ?p ?a [0 ..< length ?a] (st1, []) = (st2, rows)"
    by (cases "assemble_rows ?q ?p ?a [0 ..< length ?a] (st1, [])")
  note m = main_unfold [OF ml lp]
  have "list_all2 (\<lambda>account_id r. r < length st2 \<and> row_shape account_id (st2 ! r))
          ([] @ map (\<lambda>i. ?a ! i) [0 ..< length ?a]) rows"
    using assemble_rows_shapes [OF main_lists_props(1,2) [OF ml],
        where ids = "[]" and rows = "[]" and q = ?q and p = ?p and a = ?a
          and js = "[0 ..< length ?a]"] lp
    by simp
  then have "list_all2 (\<lambda>account_id r. r < length st2 \<and> row_shape account_id (st2 ! r)) ?a rows"
    by (simp add: map_nth)
  then have sh: "list_all2 row_shape ?a (map (\<lambda>r. st2 ! r) rows)"
    by (auto simp: list_all2_map2 elim!: list_all2_mono)
  have six: "module_store ! 0 ! 6 = PStr [] \<and> module_store ! 1 ! 6 = PStr []"
    by (simp add: module_store_def juandi_def juanse_def)
  show ?thesis using sh six by (simp add: m Let_def)
qed


theorem output_rows_shape_witness:
  "row_shape (PStr (ustr ''193'')) juandi \<and> length juandi = 13 \<and> juandi ! 6 = PStr []"
proof -
  have "row_shape (PStr (ustr ''193'')) juandi"
    using output_rows_shape [of ascii_isdigit "Returned (account_sheet (PStr (ustr ''193'')))"
        FileNotFoundError FileNotFoundError, unfolded main_193_run]
    by (simp add: Let_def)
  then show ?thesis by (simp add: juandi_def)
qed

text \<open>
  Counterexample to C5 as stated: the claim excludes the empty string from every output
  row; the row for the spreadsheet account \<open>"193"\<close> holds it in field 6.
\<close>

theorem output_row_empty_string_counterexample:
  "csv_file (main ascii_isdigit (Returned (account_sheet (PStr (ustr ''193'')))) FileNotFoundError
       FileNotFoundError module_store) = Some (SCHEMA, [juandi])
   \<and> juandi ! 6 = PStr [] \<and> juandi ! 6 \<noteq> PNone"
  by (simp add: main_193_run juandi_def)

text \<open>
  C10. After the padding the three sequences have the same length, so both guards of the
  loop hold at every row index; the number of output rows is that length; and the turn
  of the loop for index \<open>i\<close> leaves \<open>combined_quantity[i]\<close> in field 10 and
  \<open>combined_prix_revient[i]\<close> in field 11 of the row it appends. (A later turn that gets
  the same template from the table assigns the same list again, see C1.)
\<close>

theorem padded_lists_aligned:
  "case main_lists isdigit excel_cell excel_range pdf module_store of
     (out, st1, padded) \<Rightarrow>
       let q = padded ! 0; p = padded ! 1; a = padded ! 2
       in length padded = 3 \<and> length q = length a \<and> length p = length a
          \<and> padded_dynamic_lists (main isdigit excel_cell excel_range pdf module_store) = padded
          \<and> length (final_data_rows (main isdigit excel_cell excel_range pdf module_store))
              = length a
          \<and> (\<forall>i < length a.
                i < length q \<and> i < length p
                \<and> (case assemble_rows q p a [0 ..< Suc i] (st1, []) of
                     (st', rows') \<Rightarrow>
                       st' ! (rows' ! i) ! 10 = q ! i \<and> st' ! (rows' ! i) ! 11 = p ! i))"
proof -
  obtain out st1 padded
    where ml: "main_lists isdigit excel_cell excel_range pdf module_store = (out, st1, padded)"
    by (cases "main_lists isdigit excel_cell excel_range pdf module_store")
  let ?q = "padded ! 0" and ?p = "padded ! 1" and ?a = "padded ! 2"
  note props = main_lists_props [OF ml]
  obtain st2 rows
    where lp: "assemble_rows ?q ?p ?a [0 ..< length ?a] (st1, []) = (st2, rows)"
    by (cases "assemble_rows ?q ?p ?a [0 ..< length ?a] (st1, [])")
  note m = main_unfold [OF ml lp]
  have n: "length rows = length ?a"
    using assemble_rows_length [of ?q ?p ?a "[0 ..< length ?a]" "(st1, [])"] lp by simp
  have step: "case assemble_rows ?q ?p ?a [0 ..< Suc i] (st1, []) of
                (st', rows') \<Rightarrow> st' ! (rows' ! i) ! 10 = ?q ! i \<and> st' ! (rows' ! i) ! 11 = ?p ! i"
    if i: "i < length ?a" for i
  proof -
    obtain sti rowsi where si: "assemble_rows ?q ?p ?a [0 ..< i] (st1, []) = (sti, rowsi)"
      by (cases "assemble_rows ?q ?p ?a [0 ..< i] (st1, [])")
    have li: "length rowsi = i"
      using assemble_rows_length [of ?q ?p ?a "[0 ..< i]" "(st1, [])"] si by simp
    have inv: "store_ok sti \<and> same_static module_store sti"
      using assemble_rows_shapes [OF props(1,2),
          where ids = "[]" and rows = "[]" and q = ?q and p = ?p and a = ?a
            and js = "[0 ..< i]"] si
      by simp
    obtain t st' where r: "assemble_row ?q ?p ?a i (sti, rowsi) = (st', rowsi @ [t])"
      and q10: "i < length ?q \<Longrightarrow> st' ! t ! 10 = ?q ! i"
      and p11: "i < length ?p \<Longrightarrow> st' ! t ! 11 = ?p ! i"
      using assemble_row_step [of sti ?q ?p ?a i rowsi] inv by metis
    have e: "assemble_rows ?q ?p ?a [0 ..< Suc i] (st1, []) = (st', rowsi @ [t])"
      using assemble_rows_append [of ?q ?p ?a "[0 ..< i]" "[i]" "(st1, [])"] si r
      by simp
    have ti: "(rowsi @ [t]) ! i = t" using li by (simp add: nth_append)
    show ?thesis unfolding e using q10 p11 i props by (simp add: ti)
  qed
  show ?thesis using props n step by (simp add: ml m Let_def)
qed

lemma end_to_end_lists:
  "main_lists ascii_isdigit (Returned (account_sheet (PStr (ustr ''193''))))
     (Returned (data_sheet (PInt 1000) (PInt 1100)))
     (Returned [page_of (ustr ''1.500,00'') [] (ustr ''100123456'')]) module_store
   = ([Account_from_excel (PStr (ustr ''193'')),
       Excel_account_lookup (juandi ! 2) (juandi ! 0) (juandi ! 8)],
      [juandi, juanse, replicate 13 PNone],
      [[PInt 1000, PStr (ustr ''1.500.00'')], [PInt 1100, PNone],
       [PStr (ustr ''193''), PStr (ustr ''100123456'')]])"
proof -
  have cl: "combined_lists ascii_isdigit (PStr (ustr ''193'')) (Some (data_sheet (PInt 1000) (PInt 1100)))
              (\<lambda>key. splitlines (strip (page_of (ustr ''1.500,00'') [] (ustr ''100123456'') key)))
              = [[PInt 1000, PStr (ustr ''1.500.00'')], [PInt 1100],
                 [PStr (ustr ''193''), PStr (ustr ''100123456'')]]"
    by (simp add: combined_lists_def page_of_facts clean_value_1500 [OF ascii_digits]
        clean_account_100 join_nil clean_empty column_head_some [OF data_sheet_facts(1)]
        data_sheet_facts)
  show ?thesis
    by (simp add: main_lists_def read_cell read_range lookup_193
        pdf_first_page cl pad_three module_store_def Let_def)
qed

theorem padded_lists_aligned_witness:
  "length (final_data_rows
     (main ascii_isdigit (Returned (account_sheet (PStr (ustr ''193''))))
        (Returned (data_sheet (PInt 1000) (PInt 1100)))
        (Returned [page_of (ustr ''1.500,00'') [] (ustr ''100123456'')]) module_store)) = 2
   \<and> (case assemble_rows [PInt 1000, PStr (ustr ''1.500.00'')] [PInt 1100, PNone]
              [PStr (ustr ''193''), PStr (ustr ''100123456'')] [0 ..< Suc 1]
              ([juandi, juanse, replicate 13 PNone], []) of
         (st', rows') \<Rightarrow> st' ! (rows' ! 1) ! 10 = PStr (ustr ''1.500.00'')
                          \<and> st' ! (rows' ! 1) ! 11 = PNone)"
proof -
  note t = padded_lists_aligned [of ascii_isdigit "Returned (account_sheet (PStr (ustr ''193'')))"
      "Returned (data_sheet (PInt 1000) (PInt 1100))"
      "Returned [page_of (ustr ''1.500,00'') [] (ustr ''100123456'')]", unfolded end_to_end_lists]
  have one: "(1::nat) < 2" by simp
  from t have len: "length (final_data_rows
     (main ascii_isdigit (Returned (account_sheet (PStr (ustr ''193''))))
        (Returned (data_sheet (PInt 1000) (PInt 1100)))
        (Returned [page_of (ustr ''1.500,00'') [] (ustr ''100123456'')]) module_store)) = 2"
    by (simp add: Let_def)
  from t have "\<forall>i < 2. case assemble_rows [PInt 1000, PStr (ustr ''1.500.00'')] [PInt 1100, PNone]
              [PStr (ustr ''193''), PStr (ustr ''100123456'')] [0 ..< Suc i]
              ([juandi, juanse, replicate 13 PNone], []) of
         (st', rows') \<Rightarrow> st' ! (rows' ! i) ! 10 = [PInt 1000, PStr (ustr ''1.500.00'')] ! i
                          \<and> st' ! (rows' ! i) ! 11 = [PInt 1100, PNone] ! i"
    by (simp add: Let_def del: assemble_rows.simps upt_Suc)
  from this [rule_format, OF one] len show ?thesis
    by (simp del: assemble_rows.simps upt_Suc)
qed

text \<open>
  C8. When no row was assembled the program writes no file and its last printed line is
  the no-data message; no statement of \<open>main\<close> raises, the padded list having its three
  members. When rows were assembled the file holds them all, as they are in the store
  after the loop, under the header of 13 columns. With both input files missing no row
  is assembled.
\<close>

theorem main_writes_only_rows:
  "(let run = main isdigit excel_cell excel_range pdf module_store
    in length (padded_dynamic_lists run) = 3
       \<and> (final_data_rows run = [] \<longrightarrow>
            csv_file run = None \<and> last (stdout run) = No_meaningful_data)
       \<and> (final_data_rows run \<noteq> [] \<longrightarrow>
            csv_file run
              = Some (SCHEMA, map (\<lambda>r. store_after run ! r) (final_data_rows run))
            \<and> last (stdout run) = Data_saved))
   \<and> length SCHEMA = 13
   \<and> (pdf = FileNotFoundError \<or> pdf = OtherException \<longrightarrow>
        (let run = main isdigit FileNotFoundError FileNotFoundError pdf module_store
         in final_data_rows run = [] \<and> csv_file run = None
            \<and> last (stdout run) = No_meaningful_data))
   \<and> stdout (main isdigit FileNotFoundError FileNotFoundError FileNotFoundError module_store)
       = [Excel_file_not_found, Excel_file_not_found, Account_from_excel PNone,
          Excel_account_lookup PNone PNone PNone, Pdf_file_not_found, No_meaningful_data]"
proof -
  obtain out st1 padded
    where ml: "main_lists isdigit excel_cell excel_range pdf module_store = (out, st1, padded)"
    by (cases "main_lists isdigit excel_cell excel_range pdf module_store")
  obtain st2 rows
    where lp: "assemble_rows (padded ! 0) (padded ! 1) (padded ! 2) [0 ..< length (padded ! 2)]
                 (st1, []) = (st2, rows)"
    by (cases "assemble_rows (padded ! 0) (padded ! 1) (padded ! 2) [0 ..< length (padded ! 2)]
                 (st1, [])")
  have s: "length SCHEMA = 13" by (simp add: SCHEMA_def)
  have f: "pdf = FileNotFoundError \<or> pdf = OtherException \<longrightarrow>
        (let run = main isdigit FileNotFoundError FileNotFoundError pdf module_store
         in final_data_rows run = [] \<and> csv_file run = None
            \<and> last (stdout run) = No_meaningful_data)"
    by (simp add: main_failed_reads Let_def)
  show ?thesis
    using main_lists_props(3) [OF ml] s f
    by (simp add: main_unfold [OF ml lp] main_missing Let_def)
qed

theorem main_writes_only_rows_witness:
  "final_data_rows (main ascii_isdigit FileNotFoundError FileNotFoundError FileNotFoundError
                      module_store) = []
   \<and> csv_file (main ascii_isdigit FileNotFoundError FileNotFoundError FileNotFoundError
                 module_store) = None
   \<and> last (stdout (main ascii_isdigit FileNotFoundError FileNotFoundError FileNotFoundError
                      module_store)) = No_meaningful_data
   \<and> final_data_rows (main ascii_isdigit (Returned (account_sheet (PStr (ustr ''193''))))
                        FileNotFoundError FileNotFoundError module_store) \<noteq> []
   \<and> csv_file (main ascii_isdigit (Returned (account_sheet (PStr (ustr ''193''))))
                 FileNotFoundError FileNotFoundError module_store) = Some (SCHEMA, [juandi])"
proof -
  have e: "final_data_rows (main ascii_isdigit FileNotFoundError FileNotFoundError
              FileNotFoundError module_store) = []"
    by (simp add: main_missing)
  have n: "final_data_rows (main ascii_isdigit (Returned (account_sheet (PStr (ustr ''193''))))
                        FileNotFoundError FileNotFoundError module_store) \<noteq> []"
    by (simp add: main_193_run)
  have st: "map (\<lambda>r. store_after (main ascii_isdigit (Returned (account_sheet (PStr (ustr ''193''))))
                        FileNotFoundError FileNotFoundError module_store) ! r)
              (final_data_rows (main ascii_isdigit (Returned (account_sheet (PStr (ustr ''193''))))
                        FileNotFoundError FileNotFoundError module_store)) = [juandi]"
    by (simp add: main_193_run)
  from main_writes_only_rows [of ascii_isdigit FileNotFoundError FileNotFoundError
      FileNotFoundError] e
  have a: "csv_file (main ascii_isdigit FileNotFoundError FileNotFoundError FileNotFoundError
                 module_store) = None
     \<and> last (stdout (main ascii_isdigit FileNotFoundError FileNotFoundError FileNotFoundError
                      module_store)) = No_meaningful_data"
    by (simp add: Let_def)
  from main_writes_only_rows [of ascii_isdigit "Returned (account_sheet (PStr (ustr ''193'')))"
      FileNotFoundError FileNotFoundError] n
  have b: "csv_file (main ascii_isdigit (Returned (account_sheet (PStr (ustr ''193''))))
                 FileNotFoundError FileNotFoundError module_store) = Some (SCHEMA, [juandi])"
    unfolding st [symmetric] by (simp add: Let_def)
  show ?thesis using e n a b by simp
qed

lemma splitlines_from_no_break:
  "list_all (\<lambda>c. \<not> is_linebreak c) cur \<Longrightarrow>
     list_all (list_all (\<lambda>c. \<not> is_linebreak c)) (splitlines_from cur s)"
  by (induction cur s rule: splitlines_from.induct) auto

lemma splitlines_no_break: "list_all (list_all (\<lambda>c. \<not> is_linebreak c)) (splitlines s)"
  by (simp add: splitlines_def splitlines_from_no_break)

lemma join_no_break:
  "list_all (\<lambda>c. \<not> is_linebreak c) sep \<Longrightarrow> list_all (list_all (\<lambda>c. \<not> is_linebreak c)) ls \<Longrightarrow>
     list_all (\<lambda>c. \<not> is_linebreak c) (join sep ls)"
  by (induction sep ls rule: join.induct) auto

lemma extract_no_break:
  "list_all (list_all (\<lambda>c. \<not> is_linebreak c)) (snd (extract_pdf_data doc n) key)"
proof (cases doc)
  case (Returned pages)
  have "list_all (list_all (\<lambda>c. \<not> is_linebreak c)) (concat (map (\<lambda>page. splitlines (strip (page key))) ps))"
    for ps :: "pdf_page list"
    by (induction ps) (simp_all add: splitlines_no_break)
  then show ?thesis using Returned by (simp add: extract_pdf_data_def)
qed (simp_all add: extract_pdf_data_def)

lemma clean_lines_length: "length (clean_lines isdigit ls) \<le> length ls"
  by (induction ls) (auto simp: Let_def)

lemma clean_one_line:
  assumes "list_all (\<lambda>c. \<not> is_linebreak c) t"
  shows "length (clean_extracted_text isdigit t b) \<le> 1"
proof -
  have l: "length (splitlines t) \<le> 1"
    using splitlines_single [of t] assms by (simp add: list_all_iff)
  have s: "length (stripped_lines t) \<le> 1"
    unfolding stripped_lines_def length_map
    by (rule le_trans [OF length_filter_le l])
  have "length (clean_lines isdigit (stripped_lines t)) \<le> 1"
    by (rule le_trans [OF clean_lines_length s])
  then show ?thesis using s by (simp add: clean_extracted_text_def)
qed

lemma pdf_one_entry:
  "length (clean_extracted_text isdigit (join (ustr '' '') (snd (extract_pdf_data doc n) key)) b) \<le> 1"
proof -
  have "list_all (\<lambda>c. \<not> is_linebreak c) (ustr '' '')" by (simp add: ustr_def is_linebreak_def)
  then show ?thesis by (intro clean_one_line join_no_break extract_no_break)
qed

text \<open>
  C2. The claim: a rectangle that yields \<open>k\<close> lines with digits gives \<open>k\<close> entries.
  \<open>main\<close> joins the lines of a rectangle with a space before \<open>clean_extracted_text\<close>
  splits at line breaks, so the lines arrive as one: the value lines \<open>"1"\<close> and \<open>"2"\<close>
  give the single quantity \<open>"12"\<close>, the account lines \<open>"193000"\<close> and \<open>"100123"\<close> the
  single identifier \<open>"193000 100123"\<close>, and no rectangle ever gives more than one entry.
\<close>

theorem pdf_lines_are_merged:
  "(let raw = snd (extract_pdf_data
                    (Returned [page_of (ustr ''1'' @ 10 # ustr ''2'') []
                                 (ustr ''193000'' @ 10 # ustr ''100123'')]) 1)
    in raw Value_rect = [ustr ''1'', ustr ''2'']
       \<and> raw Account_num_rect = [ustr ''193000'', ustr ''100123'']
       \<and> combined_lists ascii_isdigit PNone None raw
           = [[PStr (ustr ''12'')], [], [PStr (ustr ''193000 100123'')]])
   \<and> length (clean_extracted_text isdigit
                (join (ustr '' '') (snd (extract_pdf_data doc n) key)) is_account) \<le> 1"
proof -
  have v: "splitlines (strip (ustr ''1'' @ 10 # ustr ''2'')) = [ustr ''1'', ustr ''2'']"
    by (simp add: str_defs)
  have a: "splitlines (strip (ustr ''193000'' @ 10 # ustr ''100123''))
             = [ustr ''193000'', ustr ''100123'']"
    by (simp add: str_defs)
  have cv: "clean_extracted_text ascii_isdigit (join (ustr '' '') [ustr ''1'', ustr ''2'']) False
              = [ustr ''12'']"
    by (simp add: str_defs)
  have ca: "clean_extracted_text ascii_isdigit (join (ustr '' '') [ustr ''193000'', ustr ''100123'']) True
              = [ustr ''193000 100123'']"
    by (simp add: str_defs)
  show ?thesis
    using pdf_one_entry [of isdigit doc n key is_account]
    by (simp add: pdf_first_page page_of_facts v a combined_lists_def cv ca join_nil clean_empty
        column_head_none Let_def del: join.simps)
qed

text \<open>
  C1. The claim: the list returned for a prefix of the table is a copy, so that setting
  its field 10 leaves the table's entry as it was. The code returns the table's own
  list: after \<open>lookup("193000")\<close> and the assignment of \<open>"5"\<close> to field 10 of the
  result, the table's entry for \<open>"193"\<close> holds \<open>"5"\<close> in field 10, and a second lookup
  returns the same list, which differs from what the first lookup returned. In a run
  with the spreadsheet account \<open>"193"\<close> (quantity 1000) and the PDF account \<open>"193000"\<close>
  (value \<open>"5"\<close>) both output rows are that one list, and both show the quantity \<open>"5"\<close>.
\<close>

theorem lookup_account_info_returns_table_entry:
  "(let (template, st1) = lookup_account_info (PStr (ustr ''193000'')) LOOKUP_TABLE module_store;
        st2 = set_item template 10 (PStr (ustr ''5'')) st1;
        (again, st3) = lookup_account_info (PStr (ustr ''193000'')) LOOKUP_TABLE st2
    in LOOKUP_TABLE (ustr ''193'') = Some template
       \<and> st1 ! template ! 10 = PNone
       \<and> st2 ! template ! 10 = PStr (ustr ''5'')
       \<and> again = template
       \<and> st3 ! again \<noteq> st1 ! template)
   \<and> csv_file (main ascii_isdigit (Returned (account_sheet (PStr (ustr ''193''))))
        (Returned (data_sheet (PInt 1000) (PInt 1100)))
        (Returned [page_of (ustr ''5'') [] (ustr ''193000'')]) module_store)
      = Some (SCHEMA, [juandi[10 := PStr (ustr ''5''), 11 := PNone],
                       juandi[10 := PStr (ustr ''5''), 11 := PNone]])"
proof -
  have t: "LOOKUP_TABLE (ustr ''193'') = Some 0"
    by (simp add: LOOKUP_TABLE_def ustr_def)
  have l: "(let (template, st1) = lookup_account_info (PStr (ustr ''193000'')) LOOKUP_TABLE module_store;
        st2 = set_item template 10 (PStr (ustr ''5'')) st1;
        (again, st3) = lookup_account_info (PStr (ustr ''193000'')) LOOKUP_TABLE st2
    in LOOKUP_TABLE (ustr ''193'') = Some template
       \<and> st1 ! template ! 10 = PNone
       \<and> st2 ! template ! 10 = PStr (ustr ''5'')
       \<and> again = template
       \<and> st3 ! again \<noteq> st1 ! template)"
    by (simp add: lookup_193000 t set_item_def module_store_def juandi_def)
  show ?thesis by (rule conjI [OF l shared_template_rows])
qed

end
